theory Spec2Isabelle
  imports Main "HOL-Library.Sublist"
begin

section \<open>Server: values, errors and collaborators\<close>

text \<open>
  The GraphQL server consists of the query resolvers (\<open>publishedArticles\<close>, \<open>article\<close>,
  \<open>page\<close>) and the mutation resolvers (\<open>signup\<close>, \<open>login\<close>, \<open>postArticle\<close>,
  \<open>postComment\<close>). Each resolver is an \<open>async\<close> function: a rejected promise is a
  value \<open>Inl e\<close>, a fulfilled one a value \<open>Inr v\<close>. A resolver that writes to the store
  returns the store it leaves behind next to its result.
\<close>

type_synonym ID = nat

text \<open>
  Exceptions of the JavaScript runtime and of the libraries. \<open>Error m\<close> is
  \<open>throw new Error(m)\<close>; \<open>TypeError p\<close> is the runtime's failure on reading property
  \<open>p\<close> of \<open>null\<close> or \<open>undefined\<close>; \<open>PrismaError\<close> is an error answered by the data
  store; \<open>UnauthenticatedError\<close> is the failure of the token check; \<open>ApolloError\<close> is a
  failure handed to the client by its GraphQL library.
\<close>

datatype error =
    Error string
  | TypeError string
  | PrismaError string
  | UnauthenticatedError
  | ApolloError string

abbreviation NotAuthorizedError :: error where
  "NotAuthorizedError \<equiv> Error ''Not authorized''"

subsection \<open>bcryptjs and jsonwebtoken\<close>

text \<open>
  Both libraries are modelled symbolically, as perfect cryptography. A bcrypt hash
  records the cost factor, the random salt drawn by \<open>bcrypt.hash\<close> and the password;
  \<open>bcrypt.compare\<close> accepts exactly the password the hash was made from. The salt is
  an input of the model, since the library draws it at random.
\<close>

datatype pwhash = BcryptHash nat string string

definition bcrypt_hash :: "string \<Rightarrow> nat \<Rightarrow> string \<Rightarrow> pwhash" where
  "bcrypt_hash password cost salt = BcryptHash cost salt password"

fun bcrypt_compare :: "string \<Rightarrow> pwhash \<Rightarrow> bool" where
  "bcrypt_compare password (BcryptHash cost salt p) = (p = password)"

text \<open>
  A token is either a payload \<open>{ userId }\<close> signed with a secret, or any other
  string a client may send. \<open>jwt.verify\<close> accepts a token signed with the same secret.
\<close>

datatype token = Signed string ID | Malformed string

definition jwt_sign :: "ID \<Rightarrow> string \<Rightarrow> token" where
  "jwt_sign userId secret = Signed secret userId"

fun jwt_verify :: "token \<Rightarrow> string \<Rightarrow> ID option" where
  "jwt_verify (Signed s userId) secret = (if s = secret then Some userId else None)"
| "jwt_verify (Malformed x) secret = None"

subsection \<open>The data store\<close>

record User =
  user_id :: ID
  user_name :: string
  user_email :: string
  user_pwHash :: pwhash

text \<open>
  Of an article, the fields the resolvers read or write. The timestamps, which the
  store stamps by itself, play no part in the resolvers.
\<close>

record Article =
  article_id :: ID
  article_draft :: bool
  article_title :: string
  article_summary :: string
  article_content :: string
  article_tags :: "string list"

record Comment =
  comment_id :: ID
  comment_content :: string
  comment_user :: ID
  comment_article :: ID

record Page =
  page_id :: ID
  page_name :: string
  page_content :: string

text \<open>
  The store behind \<open>context.prisma\<close>: one table per type, in insertion order, and the
  counter from which the store draws the identifier of a new row.
\<close>

record store =
  store_users :: "User list"
  store_articles :: "Article list"
  store_comments :: "Comment list"
  store_pages :: "Page list"
  store_next_id :: ID

text \<open>The request context: the store client and the token of the request, if any.\<close>

record "context" =
  prisma :: store
  authorization :: "token option"

text \<open>
  The constants \<open>APP_SECRET\<close> and \<open>ADMIN_USER\<close>, which the resolvers import from
  \<open>../utils\<close>, are parameters of the model.
\<close>

record config =
  APP_SECRET :: string
  ADMIN_USER :: string

text \<open>
  The filter object \<open>where\<close> that \<open>publishedArticles\<close> builds: the field \<open>draft\<close>
  and, when present, the alternatives of \<open>OR\<close>.
\<close>

datatype ArticleCond = title_contains string | summary_contains string

record ArticleWhere =
  where_draft :: "bool option"
  where_OR :: "ArticleCond list option"

fun cond_holds :: "Article \<Rightarrow> ArticleCond \<Rightarrow> bool" where
  "cond_holds a (title_contains s) = sublist s (article_title a)"
| "cond_holds a (summary_contains s) = sublist s (article_summary a)"

definition where_holds :: "ArticleWhere \<Rightarrow> Article \<Rightarrow> bool" where
  "where_holds w a =
     ((case where_draft w of None \<Rightarrow> True | Some d \<Rightarrow> article_draft a = d) \<and>
      (case where_OR w of None \<Rightarrow> True | Some cs \<Rightarrow> list_ex (cond_holds a) cs))"

text \<open>
  \<open>prisma.articles({ where, skip, first })\<close>: the rows that satisfy \<open>where\<close>, in the
  order of the table, without the first \<open>skip\<close> of them and cut to \<open>first\<close> rows. An
  argument left \<open>undefined\<close> is \<open>None\<close>. The store rejects a negative \<open>skip\<close> or
  \<open>first\<close>.
\<close>

definition prisma_articles ::
  "ArticleWhere \<Rightarrow> int option \<Rightarrow> int option \<Rightarrow> store \<Rightarrow> error + Article list" where
  "prisma_articles w skip first s =
     (if (case skip of None \<Rightarrow> False | Some k \<Rightarrow> k < 0) then Inl (PrismaError ''skip'')
      else if (case first of None \<Rightarrow> False | Some n \<Rightarrow> n < 0) then Inl (PrismaError ''first'')
      else
        let rows = filter (where_holds w) (store_articles s);
            rows1 = (case skip of None \<Rightarrow> rows | Some k \<Rightarrow> drop (nat k) rows);
            rows2 = (case first of None \<Rightarrow> rows1 | Some n \<Rightarrow> take (nat n) rows1)
        in Inr rows2)"

text \<open>Lookups of one row by a unique field answer \<open>null\<close> (\<open>None\<close>) when no row matches.\<close>

definition prisma_article :: "ID \<Rightarrow> store \<Rightarrow> Article option" where
  "prisma_article i s = find (\<lambda>a. article_id a = i) (store_articles s)"

definition prisma_page :: "string \<Rightarrow> store \<Rightarrow> Page option" where
  "prisma_page n s = find (\<lambda>p. page_name p = n) (store_pages s)"

definition prisma_user_by_id :: "ID \<Rightarrow> store \<Rightarrow> User option" where
  "prisma_user_by_id i s = find (\<lambda>u. user_id u = i) (store_users s)"

definition prisma_user_by_email :: "string \<Rightarrow> store \<Rightarrow> User option" where
  "prisma_user_by_email e s = find (\<lambda>u. user_email u = e) (store_users s)"

definition prisma_exists_user :: "string \<Rightarrow> store \<Rightarrow> bool" where
  "prisma_exists_user n s = list_ex (\<lambda>u. user_name u = n) (store_users s)"

text \<open>
  The creations append a row under a fresh identifier. The email of a user is a unique
  field of the store, as the single-row lookup \<open>prisma.user({ email })\<close> of \<open>login\<close>
  requires: \<open>createUser\<close> is refused, and nothing is stored, when a stored user already
  has the email. The tag list of a new article is the list given under \<open>set\<close>, as it
  is. \<open>createComment\<close> connects the comment to a user and to an article, and the store
  rejects a connection to a row that does not exist.
\<close>

definition prisma_createUser ::
  "string \<Rightarrow> string \<Rightarrow> pwhash \<Rightarrow> store \<Rightarrow> (error + User) \<times> store" where
  "prisma_createUser n e h s =
     (if prisma_user_by_email e s \<noteq> None then (Inl (PrismaError ''email''), s)
      else
        let u = \<lparr>user_id = store_next_id s, user_name = n, user_email = e, user_pwHash = h\<rparr>
        in (Inr u, s\<lparr>store_users := store_users s @ [u],
                     store_next_id := Suc (store_next_id s)\<rparr>))"

text \<open>
  Modelled from the spec: the schema of the store (the datamodel is not among the
  sources) creates an article with the draft flag true, the server default.
\<close>

definition prisma_createArticle ::
  "string \<Rightarrow> string \<Rightarrow> string \<Rightarrow> string list \<Rightarrow> store \<Rightarrow> Article \<times> store" where
  "prisma_createArticle t sm c tags_set s =
     (let a = \<lparr>article_id = store_next_id s, article_draft = True, article_title = t,
                article_summary = sm, article_content = c, article_tags = tags_set\<rparr>
      in (a, s\<lparr>store_articles := store_articles s @ [a],
               store_next_id := Suc (store_next_id s)\<rparr>))"

definition prisma_createComment ::
  "string \<Rightarrow> ID \<Rightarrow> ID \<Rightarrow> store \<Rightarrow> (error + Comment) \<times> store" where
  "prisma_createComment c connect_user connect_article s =
     (if prisma_user_by_id connect_user s = None then (Inl (PrismaError ''User''), s)
      else if prisma_article connect_article s = None then (Inl (PrismaError ''Article''), s)
      else
        let k = \<lparr>comment_id = store_next_id s, comment_content = c,
                 comment_user = connect_user, comment_article = connect_article\<rparr>
        in (Inr k, s\<lparr>store_comments := store_comments s @ [k],
                     store_next_id := Suc (store_next_id s)\<rparr>))"

section \<open>Query resolvers\<close>

record query_args =
  arg_filter :: "string option"
  arg_skip :: "int option"
  arg_first :: "int option"

text \<open>
  \<open>publishedArticles\<close>. The test \<open>if (args.filter)\<close> is false for a filter that is
  absent and for the empty string.
\<close>

definition publishedArticles :: "query_args \<Rightarrow> context \<Rightarrow> error + Article list" where
  "publishedArticles args ctx =
     (let where0 = \<lparr>where_draft = Some False, where_OR = None\<rparr>;
          where1 = (case arg_filter args of
                      None \<Rightarrow> where0
                    | Some f \<Rightarrow>
                        if f \<noteq> [] then where0\<lparr>where_OR := Some [title_contains f, summary_contains f]\<rparr>
                        else where0)
      in prisma_articles where1 (arg_skip args) (arg_first args) (prisma ctx))"

text \<open>
  Modelled from the spec: \<open>getUserId\<close> of \<open>../utils\<close>, which is not among the sources
  (the spec's \<open>resolveCurrentUserId\<close>). It extracts and verifies the signed token of
  the request, fails with \<open>UnauthenticatedError\<close> if the token is absent or invalid, and
  returns the embedded user identifier.
\<close>

definition getUserId :: "config \<Rightarrow> context \<Rightarrow> error + ID" where
  "getUserId cfg ctx =
     (case authorization ctx of
        None \<Rightarrow> Inl UnauthenticatedError
      | Some t \<Rightarrow>
          (case jwt_verify t (APP_SECRET cfg) of
             None \<Rightarrow> Inl UnauthenticatedError
           | Some userId \<Rightarrow> Inr userId))"

text \<open>
  Modelled from the spec: \<open>assertAdminUser\<close> of \<open>../utils\<close>, which is not among the
  sources. It resolves the current user and fails with \<open>NotAuthorizedError\<close> unless the
  user's name equals the process-wide configured admin name. A request whose current
  user cannot be resolved (no valid token, or no record for the identifier) has no user
  of the admin name, and by these words fails with \<open>NotAuthorizedError\<close> as well.
\<close>

definition assertAdminUser :: "config \<Rightarrow> context \<Rightarrow> error + unit" where
  "assertAdminUser cfg ctx =
     (case getUserId cfg ctx of
        Inl e \<Rightarrow> Inl NotAuthorizedError
      | Inr userId \<Rightarrow>
          (case prisma_user_by_id userId (prisma ctx) of
             None \<Rightarrow> Inl NotAuthorizedError
           | Some user \<Rightarrow>
               if user_name user = ADMIN_USER cfg then Inr () else Inl NotAuthorizedError))"

text \<open>
  \<open>article\<close>. The lookup answers \<open>null\<close> for an unknown id, and reading \<open>article.draft\<close>
  of \<open>null\<close> throws the runtime's \<open>TypeError\<close>.
\<close>

definition article :: "config \<Rightarrow> ID \<Rightarrow> context \<Rightarrow> error + Article" where
  "article cfg i ctx =
     (case prisma_article i (prisma ctx) of
        None \<Rightarrow> Inl (TypeError ''draft'')
      | Some a \<Rightarrow>
          if article_draft a then
            (case assertAdminUser cfg ctx of Inl e \<Rightarrow> Inl e | Inr _ \<Rightarrow> Inr a)
          else Inr a)"

text \<open>\<open>page\<close> returns what the lookup answers, \<open>null\<close> (\<open>None\<close>) included.\<close>

definition page :: "string \<Rightarrow> context \<Rightarrow> error + Page option" where
  "page n ctx = Inr (prisma_page n (prisma ctx))"

section \<open>Mutation resolvers\<close>

record signup_args =
  su_name :: string
  su_email :: string
  su_password :: string

record login_args =
  li_email :: string
  li_password :: string

record postArticle_args =
  pa_title :: string
  pa_summary :: string
  pa_content :: string
  pa_tags :: "string list"

record postComment_args =
  pc_content :: string
  pc_articleId :: ID

text \<open>
  \<open>signup\<close>; \<open>salt\<close> is the salt that \<open>bcrypt.hash\<close> draws. The resolver does not catch
  what \<open>createUser\<close> throws, so a refusal of the store is the failure of the resolver.
\<close>

definition signup ::
  "config \<Rightarrow> signup_args \<Rightarrow> string \<Rightarrow> context \<Rightarrow> (error + token \<times> User) \<times> store" where
  "signup cfg args salt ctx =
     (if prisma_exists_user (su_name args) (prisma ctx) then
        (Inl (Error ''User already exists''), prisma ctx)
      else
        let pwHash = bcrypt_hash (su_password args) 10 salt;
            (created, s') = prisma_createUser (su_name args) (su_email args) pwHash (prisma ctx)
        in (case created of
              Inl e \<Rightarrow> (Inl e, s')
            | Inr user \<Rightarrow>
                let token = jwt_sign (user_id user) (APP_SECRET cfg)
                in (Inr (token, user), s')))"

definition login :: "config \<Rightarrow> login_args \<Rightarrow> context \<Rightarrow> error + token \<times> User" where
  "login cfg args ctx =
     (case prisma_user_by_email (li_email args) (prisma ctx) of
        None \<Rightarrow> Inl (Error ''No such user found'')
      | Some user \<Rightarrow>
          if \<not> bcrypt_compare (li_password args) (user_pwHash user) then
            Inl (Error ''Invalid password'')
          else Inr (jwt_sign (user_id user) (APP_SECRET cfg), user))"

text \<open>
  \<open>postArticle\<close> and \<open>postComment\<close>. The lookup of the user answers \<open>null\<close> for an
  unknown id, and reading \<open>user.name\<close> of \<open>null\<close> throws the runtime's \<open>TypeError\<close>.
\<close>

definition postArticle ::
  "config \<Rightarrow> postArticle_args \<Rightarrow> context \<Rightarrow> (error + Article) \<times> store" where
  "postArticle cfg args ctx =
     (case getUserId cfg ctx of
        Inl e \<Rightarrow> (Inl e, prisma ctx)
      | Inr userId \<Rightarrow>
          (case prisma_user_by_id userId (prisma ctx) of
             None \<Rightarrow> (Inl (TypeError ''name''), prisma ctx)
           | Some user \<Rightarrow>
               if user_name user \<noteq> ADMIN_USER cfg then (Inl (Error ''Not authorized''), prisma ctx)
               else
                 let (a, s') = prisma_createArticle (pa_title args) (pa_summary args)
                                 (pa_content args) (pa_tags args) (prisma ctx)
                 in (Inr a, s')))"

definition postComment ::
  "config \<Rightarrow> postComment_args \<Rightarrow> context \<Rightarrow> (error + Comment) \<times> store" where
  "postComment cfg args ctx =
     (case getUserId cfg ctx of
        Inl e \<Rightarrow> (Inl e, prisma ctx)
      | Inr userId \<Rightarrow>
          (case prisma_user_by_id userId (prisma ctx) of
             None \<Rightarrow> (Inl (TypeError ''name''), prisma ctx)
           | Some user \<Rightarrow>
               if user_name user \<noteq> ADMIN_USER cfg then (Inl (Error ''Not authorized''), prisma ctx)
               else prisma_createComment (pc_content args) userId (pc_articleId args)
                      (prisma ctx)))"

section \<open>Client: the article service\<close>

text \<open>
  The admin client's \<open>ArticleService\<close> pipes the result stream of the GraphQL client
  through \<open>map\<close> and \<open>tap\<close>. The values on the stream are JavaScript values.
\<close>

datatype jsval =
    JUndefined
  | JNull
  | JBool bool
  | JStr string
  | JArr "jsval list"
  | JObj "(string \<times> jsval) list"

text \<open>
  Reading a property: of \<open>undefined\<close> and \<open>null\<close> it throws; of an object it is the
  value stored under the name, or \<open>undefined\<close>.
\<close>

fun get_prop :: "jsval \<Rightarrow> string \<Rightarrow> error + jsval" where
  "get_prop JUndefined p = Inl (TypeError p)"
| "get_prop JNull p = Inl (TypeError p)"
| "get_prop (JObj fs) p = Inr (case map_of fs p of None \<Rightarrow> JUndefined | Some v \<Rightarrow> v)"
| "get_prop v p = Inr JUndefined"

fun join_comma :: "string list \<Rightarrow> string" where
  "join_comma [] = []"
| "join_comma [s] = s"
| "join_comma (s # t # ss) = s @ '','' @ join_comma (t # ss)"

text \<open>The string a template literal makes of a value.\<close>

fun js_string :: "jsval \<Rightarrow> string" where
  "js_string JUndefined = ''undefined''"
| "js_string JNull = ''null''"
| "js_string (JBool b) = (if b then ''true'' else ''false'')"
| "js_string (JStr s) = s"
| "js_string (JArr xs) =
     join_comma (map (\<lambda>x. if x = JUndefined \<or> x = JNull then [] else js_string x) xs)"
| "js_string (JObj fs) = ''[object Object]''"

text \<open>
  An observable is the sequence of notifications it delivers. An operator stops at the
  first error or completion it passes on.
\<close>

datatype 'a notification = Next 'a | Err error | Complete

text \<open>\<open>map(project)\<close>: an exception of \<open>project\<close> becomes the error of the stream.\<close>

fun rx_map :: "('a \<Rightarrow> error + 'b) \<Rightarrow> 'a notification list \<Rightarrow> 'b notification list" where
  "rx_map project [] = []"
| "rx_map project (Next v # ns) =
     (case project v of
        Inl e \<Rightarrow> [Err e]
      | Inr w \<Rightarrow> Next w # rx_map project ns)"
| "rx_map project (Err e # ns) = [Err e]"
| "rx_map project (Complete # ns) = [Complete]"

text \<open>
  \<open>tap(next, error)\<close> over a state \<open>'l\<close> that the callbacks may change: \<open>next\<close> runs on
  every value before the value is passed on, and an exception of \<open>next\<close> becomes the
  error of the stream in place of the value; \<open>error\<close> runs on an error of the source
  before the error is passed on.
\<close>

fun rx_tap ::
  "('a \<Rightarrow> 'l \<Rightarrow> error + 'l) \<Rightarrow> (error \<Rightarrow> 'l \<Rightarrow> 'l) \<Rightarrow> 'a notification list \<Rightarrow> 'l \<Rightarrow>
   'a notification list \<times> 'l" where
  "rx_tap nextf errf [] l = ([], l)"
| "rx_tap nextf errf (Next v # ns) l =
     (case nextf v l of
        Inl e \<Rightarrow> ([Err e], l)
      | Inr l' \<Rightarrow> (let (out, l'') = rx_tap nextf errf ns l' in (Next v # out, l'')))"
| "rx_tap nextf errf (Err e # ns) l = ([Err e], errf e l)"
| "rx_tap nextf errf (Complete # ns) l = ([Complete], l)"

text \<open>
  Modelled from the spec: \<open>LoggingService\<close> of \<open>./logging.service\<close>, which is not among
  the sources. It accepts free-text event strings and never throws.
\<close>

type_synonym logger = "string list"

definition logger_add :: "string \<Rightarrow> logger \<Rightarrow> logger" where
  "logger_add msg l = l @ [msg]"

text \<open>
  The type \<open>Article\<close> of \<open>./types\<close>, as far as the service reads it. Its fields other
  than \<open>id\<close> only travel to the GraphQL client as variables.
\<close>

record ArticleT =
  t_id :: string
  t_title :: string
  t_summary :: string
  t_content :: string
  t_tags :: "string list"

text \<open>The projection \<open>result => result.data.<field>\<close>.\<close>

definition data_field :: "string \<Rightarrow> jsval \<Rightarrow> error + jsval" where
  "data_field f result =
     (case get_prop result ''data'' of
        Inl e \<Rightarrow> Inl e
      | Inr d \<Rightarrow> get_prop d f)"

text \<open>
  \<open>ArticleService.postArticle\<close>; \<open>src\<close> is the stream that \<open>apollo.mutate\<close> answers.
  The \<open>next\<close> callback of \<open>tap\<close> reads \<open>result.data.postArticle\<close> and then the \<open>id\<close> of
  that.
\<close>

definition postArticle_tap_next :: "jsval \<Rightarrow> logger \<Rightarrow> error + logger" where
  "postArticle_tap_next result l =
     (case data_field ''postArticle'' result of
        Inl e \<Rightarrow> Inl e
      | Inr art \<Rightarrow>
          (case get_prop art ''id'' of
             Inl e \<Rightarrow> Inl e
           | Inr i \<Rightarrow> Inr (logger_add (''Created article, id='' @ js_string i) l)))"

definition ArticleService_postArticle ::
  "ArticleT \<Rightarrow> jsval notification list \<Rightarrow> logger \<Rightarrow> jsval notification list \<times> logger" where
  "ArticleService_postArticle art src l =
     rx_tap postArticle_tap_next (\<lambda>e. logger_add ''Failed to create article'')
       (rx_map (data_field ''postArticle'') src) l"

text \<open>
  \<open>ArticleService.updateArticle\<close>; \<open>src\<close> is the stream that \<open>updateArticleGql.mutate\<close>
  answers.
\<close>

definition ArticleService_updateArticle ::
  "ArticleT \<Rightarrow> jsval notification list \<Rightarrow> logger \<Rightarrow> jsval notification list \<times> logger" where
  "ArticleService_updateArticle art src l =
     rx_tap (\<lambda>v l. Inr (logger_add (''Saved article, id='' @ t_id art) l))
       (\<lambda>e. logger_add (''Failed to save article, id='' @ t_id art))
       (rx_map (data_field ''updateArticle'') src) l"

text \<open>The two operations without their \<open>tap\<close> stage, that is, with the logging removed.\<close>

definition postArticle_without_logging :: "jsval notification list \<Rightarrow> jsval notification list" where
  "postArticle_without_logging src = rx_map (data_field ''postArticle'') src"

definition updateArticle_without_logging :: "jsval notification list \<Rightarrow> jsval notification list" where
  "updateArticle_without_logging src = rx_map (data_field ''updateArticle'') src"

section \<open>Sample data\<close>

text \<open>A small store and a payload of the client, for the concrete instances below.\<close>

definition sample_cfg :: config where
  "sample_cfg = \<lparr>APP_SECRET = ''s3cret'', ADMIN_USER = ''rob''\<rparr>"

definition sample_rob :: User where
  "sample_rob = \<lparr>user_id = 1, user_name = ''rob'', user_email = ''rob@example.org'',
     user_pwHash = BcryptHash 10 ''salt1'' ''hunter2''\<rparr>"

definition sample_eve :: User where
  "sample_eve = \<lparr>user_id = 2, user_name = ''eve'', user_email = ''eve@example.org'',
     user_pwHash = BcryptHash 10 ''salt2'' ''letmein''\<rparr>"

definition sample_published :: Article where
  "sample_published = \<lparr>article_id = 3, article_draft = False,
     article_title = ''Hello world'', article_summary = ''A first post'',
     article_content = ''Text'', article_tags = [''misc'']\<rparr>"

definition sample_draft :: Article where
  "sample_draft = \<lparr>article_id = 4, article_draft = True,
     article_title = ''New world'', article_summary = ''Unfinished'',
     article_content = ''Text'', article_tags = []\<rparr>"

definition sample_page :: Page where
  "sample_page = \<lparr>page_id = 5, page_name = ''about'', page_content = ''About me''\<rparr>"

definition sample_store :: store where
  "sample_store = \<lparr>store_users = [sample_rob, sample_eve],
     store_articles = [sample_published, sample_draft], store_comments = [],
     store_pages = [sample_page], store_next_id = 6\<rparr>"

definition sample_ctx :: "token option \<Rightarrow> context" where
  "sample_ctx tok = \<lparr>prisma = sample_store, authorization = tok\<rparr>"

definition sample_payload :: jsval where
  "sample_payload = JObj [(''id'', JStr ''cjx1''), (''draft'', JBool True),
     (''title'', JStr ''T''), (''summary'', JStr ''S''), (''content'', JStr ''C''),
     (''tags'', JArr [JStr ''a''])]"

definition sample_input :: ArticleT where
  "sample_input = \<lparr>t_id = '''', t_title = ''T'', t_summary = ''S'', t_content = ''C'',
     t_tags = [''a'']\<rparr>"

section \<open>Lookups\<close>

lemmas sample_defs = sample_cfg_def sample_rob_def sample_eve_def sample_published_def
  sample_draft_def sample_page_def sample_store_def sample_ctx_def

lemmas lookup_defs = prisma_article_def prisma_page_def prisma_user_by_id_def
  prisma_user_by_email_def prisma_exists_user_def

lemma find_unique:
  "distinct (map f xs) \<Longrightarrow> x \<in> set xs \<Longrightarrow> find (\<lambda>y. f y = f x) xs = Some x"
  by (induction xs) (auto simp: image_iff)

lemma find_key: "find (\<lambda>y. f y = k) xs = Some x \<Longrightarrow> f x = k \<and> x \<in> set xs"
  by (auto simp: find_Some_iff)

lemma prisma_user_by_email_sound:
  "prisma_user_by_email e s = Some u \<Longrightarrow> u \<in> set (store_users s) \<and> user_email u = e"
  by (auto simp: prisma_user_by_email_def dest: find_key)

lemma exists_user_iff:
  "prisma_exists_user n s \<longleftrightarrow> (\<exists>u \<in> set (store_users s). user_name u = n)"
  by (simp add: prisma_exists_user_def list_ex_iff)

section \<open>Published articles\<close>

lemma prisma_articles_subset:
  "prisma_articles w skip first s = Inr rows \<Longrightarrow>
   set rows \<subseteq> {a \<in> set (store_articles s). where_holds w a}"
proof -
  assume h: "prisma_articles w skip first s = Inr rows"
  let ?all = "filter (where_holds w) (store_articles s)"
  let ?r1 = "case skip of None \<Rightarrow> ?all | Some k \<Rightarrow> drop (nat k) ?all"
  have r1: "set ?r1 \<subseteq> set ?all"
    by (cases skip) (auto dest: in_set_dropD)
  from h have "rows = (case first of None \<Rightarrow> ?r1 | Some n \<Rightarrow> take (nat n) ?r1)"
    by (simp add: prisma_articles_def Let_def split: if_splits)
  then have "set rows \<subseteq> set ?r1"
    by (cases first) (auto dest: in_set_takeD)
  with r1 show ?thesis by auto
qed

text \<open>
  C1. Whatever the filter, \<open>skip\<close> and \<open>first\<close>: every article that \<open>publishedArticles\<close>
  returns is a stored article whose draft flag is false, and when a filter is supplied
  the filter is a (case-sensitive) substring of its title or of its summary.
\<close>

theorem publishedArticles_only_published:
  assumes "publishedArticles args ctx = Inr rows" and "a \<in> set rows"
  shows "a \<in> set (store_articles (prisma ctx)) \<and> \<not> article_draft a \<and>
         (\<forall>f. arg_filter args = Some f \<longrightarrow>
              sublist f (article_title a) \<or> sublist f (article_summary a))"
proof -
  obtain w where w: "prisma_articles w (arg_skip args) (arg_first args) (prisma ctx) = Inr rows"
    and wd: "where_draft w = Some False"
    and wo: "\<And>f. arg_filter args = Some f \<Longrightarrow> f \<noteq> [] \<Longrightarrow>
                 where_OR w = Some [title_contains f, summary_contains f]"
    using assms(1) by (auto simp: publishedArticles_def Let_def split: option.splits if_splits)
  from prisma_articles_subset [OF w] assms(2)
  have mem: "a \<in> set (store_articles (prisma ctx))" and holds: "where_holds w a"
    by auto
  from holds wd have nd: "\<not> article_draft a"
    by (simp add: where_holds_def)
  have "sublist f (article_title a) \<or> sublist f (article_summary a)"
    if f: "arg_filter args = Some f" for f
  proof (cases "f = []")
    case True
    then show ?thesis by simp
  next
    case False
    with wo [OF f] holds show ?thesis
      by (simp add: where_holds_def)
  qed
  with mem nd show ?thesis by blast
qed

text \<open>
  The instance: the filter \<open>world\<close> on the sample store selects the published article
  titled \<open>Hello world\<close> and leaves out the draft titled \<open>New world\<close>.
\<close>

theorem publishedArticles_only_published_witness:
  "publishedArticles \<lparr>arg_filter = Some ''world'', arg_skip = Some 0, arg_first = Some 5\<rparr>
     (sample_ctx None) = Inr [sample_published] \<and>
   sample_published \<in> set (store_articles (prisma (sample_ctx None))) \<and>
   \<not> article_draft sample_published \<and>
   (sublist ''world'' (article_title sample_published) \<or>
    sublist ''world'' (article_summary sample_published))"
proof -
  have r: "publishedArticles \<lparr>arg_filter = Some ''world'', arg_skip = Some 0, arg_first = Some 5\<rparr>
     (sample_ctx None) = Inr [sample_published]"
  proof -
    have t: "sublist ''world'' ''Hello world''"
      by (simp add: sublist_code)
    have n: "\<not> article_draft sample_published" "article_draft sample_draft"
      "article_title sample_published = ''Hello world''"
      by (simp_all add: sample_defs)
    show ?thesis
      by (simp add: publishedArticles_def prisma_articles_def where_holds_def t n
          sample_store_def sample_ctx_def)
  qed
  from publishedArticles_only_published [OF r, of sample_published] r
  show ?thesis by simp
qed

section \<open>A single article\<close>

text \<open>
  The part of the resolver that the sources hold: on a stored draft, \<open>article\<close> answers
  the error of the guard when the guard fails, and the article when the guard passes.
\<close>

lemma article_draft_forwards_guard:
  assumes "prisma_article i (prisma ctx) = Some a" and "article_draft a"
  shows "article cfg i ctx = (case assertAdminUser cfg ctx of Inl e \<Rightarrow> Inl e | Inr u \<Rightarrow> Inr a)"
  using assms by (simp add: article_def)

lemma assertAdminUser_outcomes:
  "assertAdminUser cfg ctx = Inr () \<or> assertAdminUser cfg ctx = Inl NotAuthorizedError"
  by (simp add: assertAdminUser_def split: sum.splits option.splits)



text \<open>
  C3 asks for \<open>NotFoundError\<close> on an id that matches no stored article. The resolver
  does not test the answer of the lookup, as \<open>login\<close> does with \<open>if (!user)\<close>: on the
  sample store, whose articles have the ids 3 and 4, the id 9 makes it read \<open>draft\<close>
  of \<open>null\<close>, and the request fails with the runtime's \<open>TypeError\<close>.
\<close>

theorem article_unknown_id_TypeError:
  "prisma_article 9 (prisma (sample_ctx None)) = None \<and>
   article sample_cfg 9 (sample_ctx None) = Inl (TypeError ''draft'')"
  by (simp add: article_def lookup_defs sample_defs)

lemma article_unknown_id:
  "prisma_article i (prisma ctx) = None \<Longrightarrow> article cfg i ctx = Inl (TypeError ''draft'')"
  by (simp add: article_def)

text \<open>
  C9. For every stored article whose draft flag is false, \<open>article\<close> returns that
  article whatever the token of the request is, the absent token of an anonymous caller
  included: the result does not depend on the identity of the caller.
\<close>

theorem article_published_ignores_identity:
  assumes "prisma_article i s = Some a" and "\<not> article_draft a"
  shows "article cfg i \<lparr>prisma = s, authorization = tok\<rparr> = Inr a"
  using assms by (simp add: article_def)

theorem article_published_ignores_identity_witness:
  "article sample_cfg 3 \<lparr>prisma = sample_store, authorization = None\<rparr> = Inr sample_published \<and>
   article sample_cfg 3 \<lparr>prisma = sample_store, authorization = Some (Malformed ''x'')\<rparr>
     = Inr sample_published \<and>
   article sample_cfg 3 \<lparr>prisma = sample_store, authorization = Some (jwt_sign 2 ''s3cret'')\<rparr>
     = Inr sample_published"
proof -
  have a: "prisma_article 3 sample_store = Some sample_published"
    by (simp add: lookup_defs sample_defs)
  have d: "\<not> article_draft sample_published"
    by (simp add: sample_defs)
  from article_published_ignores_identity [OF a d] show ?thesis by simp
qed

section \<open>Pages\<close>

text \<open>
  As C7 states it, \<open>page\<close> fails with \<open>NotFoundError\<close> for a name that matches no
  stored page. The resolver returns what the lookup answers: for the name \<open>contact\<close>,
  which the sample store does not have, it returns \<open>null\<close> and does not fail.
\<close>

theorem page_unknown_name_counterexample:
  "prisma_page ''contact'' (prisma (sample_ctx None)) = None \<and>
   page ''contact'' (sample_ctx None) = Inr None"
  by (simp add: page_def lookup_defs sample_defs)

text \<open>
  C7, amended. For every name that matches no stored page, \<open>page\<close> returns \<open>null\<close>
  and raises no error; when a page with that name exists, the names of the stored pages
  being unique, that page is returned.
\<close>

theorem page_lookup:
  "((\<forall>p \<in> set (store_pages (prisma ctx)). page_name p \<noteq> n) \<longrightarrow> page n ctx = Inr None) \<and>
   (p \<in> set (store_pages (prisma ctx)) \<and> page_name p = n \<and>
    distinct (map page_name (store_pages (prisma ctx))) \<longrightarrow> page n ctx = Inr (Some p))"
proof (intro conjI impI)
  assume "\<forall>p \<in> set (store_pages (prisma ctx)). page_name p \<noteq> n"
  then show "page n ctx = Inr None"
    by (auto simp: page_def prisma_page_def find_None_iff)
next
  assume h: "p \<in> set (store_pages (prisma ctx)) \<and> page_name p = n \<and>
    distinct (map page_name (store_pages (prisma ctx)))"
  then have "find (\<lambda>y. page_name y = page_name p) (store_pages (prisma ctx)) = Some p"
    by (intro find_unique) auto
  with h show "page n ctx = Inr (Some p)"
    by (auto simp: page_def prisma_page_def)
qed

theorem page_lookup_witness:
  "page ''contact'' (sample_ctx None) = Inr None \<and>
   page ''about'' (sample_ctx None) = Inr (Some sample_page)"
proof -
  have n: "\<forall>p \<in> set (store_pages (prisma (sample_ctx None))). page_name p \<noteq> ''contact''"
    by (simp add: sample_defs)
  have y: "sample_page \<in> set (store_pages (prisma (sample_ctx None))) \<and>
      page_name sample_page = ''about'' \<and>
      distinct (map page_name (store_pages (prisma (sample_ctx None))))"
    by (simp add: sample_defs)
  from page_lookup [of "sample_ctx None" "''contact''" sample_page]
       page_lookup [of "sample_ctx None" "''about''" sample_page] n y
  show ?thesis by blast
qed

section \<open>Signup and login\<close>

text \<open>
  As C5 states it, every \<open>signup\<close> call whose name is new persists a user and returns a
  token. On the sample store the name \<open>bob\<close> is new, but the email of the call is the
  stored email of \<open>eve\<close>: the store refuses the record, and the call fails with the
  store's error and persists nothing.
\<close>

theorem signup_stored_email_counterexample:
  "\<not> prisma_exists_user ''bob'' (prisma (sample_ctx None)) \<and>
   prisma_user_by_email ''eve@example.org'' (prisma (sample_ctx None)) = Some sample_eve \<and>
   signup sample_cfg \<lparr>su_name = ''bob'', su_email = ''eve@example.org'', su_password = ''pw''\<rparr>
     ''salt3'' (sample_ctx None) = (Inl (PrismaError ''email''), sample_store)"
  by (simp add: signup_def prisma_createUser_def lookup_defs sample_defs)

text \<open>
  C5, amended. When the name of a \<open>signup\<close> call already belongs to a stored user, the call
  fails with the error \<open>User already exists\<close> and leaves the store as it was. Otherwise,
  when no stored user has the email of the call, it appends one user record, with the
  name and the email of the call and with the bcrypt hash of cost factor 10 of the
  supplied password, and returns that user together with a token that embeds the
  identifier of the new user. Otherwise, the name being new and the email stored, the
  call fails with the error of the store and leaves the store as it was.
\<close>

theorem signup_outcomes:
  "((\<exists>u \<in> set (store_users (prisma ctx)). user_name u = su_name args) \<longrightarrow>
      signup cfg args salt ctx = (Inl (Error ''User already exists''), prisma ctx)) \<and>
   (\<not> (\<exists>u \<in> set (store_users (prisma ctx)). user_name u = su_name args) \<and>
    (\<forall>u \<in> set (store_users (prisma ctx)). user_email u \<noteq> su_email args) \<longrightarrow>
      (\<exists>user. signup cfg args salt ctx =
           (Inr (jwt_sign (user_id user) (APP_SECRET cfg), user),
            (prisma ctx)\<lparr>store_users := store_users (prisma ctx) @ [user],
                          store_next_id := Suc (store_next_id (prisma ctx))\<rparr>) \<and>
         user_name user = su_name args \<and> user_email user = su_email args \<and>
         user_pwHash user = bcrypt_hash (su_password args) 10 salt)) \<and>
   (\<not> (\<exists>u \<in> set (store_users (prisma ctx)). user_name u = su_name args) \<and>
    (\<exists>u \<in> set (store_users (prisma ctx)). user_email u = su_email args) \<longrightarrow>
      signup cfg args salt ctx = (Inl (PrismaError ''email''), prisma ctx))"
proof (intro conjI impI)
  assume "\<exists>u \<in> set (store_users (prisma ctx)). user_name u = su_name args"
  then show "signup cfg args salt ctx = (Inl (Error ''User already exists''), prisma ctx)"
    by (simp add: signup_def exists_user_iff)
next
  assume h: "\<not> (\<exists>u \<in> set (store_users (prisma ctx)). user_name u = su_name args) \<and>
    (\<forall>u \<in> set (store_users (prisma ctx)). user_email u \<noteq> su_email args)"
  then have "prisma_user_by_email (su_email args) (prisma ctx) = None"
    by (auto simp: prisma_user_by_email_def find_None_iff)
  with h show "\<exists>user. signup cfg args salt ctx =
           (Inr (jwt_sign (user_id user) (APP_SECRET cfg), user),
            (prisma ctx)\<lparr>store_users := store_users (prisma ctx) @ [user],
                          store_next_id := Suc (store_next_id (prisma ctx))\<rparr>) \<and>
         user_name user = su_name args \<and> user_email user = su_email args \<and>
         user_pwHash user = bcrypt_hash (su_password args) 10 salt"
    by (simp add: signup_def exists_user_iff prisma_createUser_def Let_def)
next
  assume h: "\<not> (\<exists>u \<in> set (store_users (prisma ctx)). user_name u = su_name args) \<and>
    (\<exists>u \<in> set (store_users (prisma ctx)). user_email u = su_email args)"
  then have "prisma_user_by_email (su_email args) (prisma ctx) \<noteq> None"
    by (auto simp: prisma_user_by_email_def find_None_iff)
  with h show "signup cfg args salt ctx = (Inl (PrismaError ''email''), prisma ctx)"
    by (simp add: signup_def exists_user_iff prisma_createUser_def)
qed

theorem signup_outcomes_witness:
  "signup sample_cfg \<lparr>su_name = ''eve'', su_email = ''e@example.org'', su_password = ''pw''\<rparr>
     ''salt3'' (sample_ctx None) = (Inl (Error ''User already exists''), sample_store) \<and>
   (\<exists>user. signup sample_cfg \<lparr>su_name = ''bob'', su_email = ''b@example.org'', su_password = ''pw''\<rparr>
       ''salt3'' (sample_ctx None) =
         (Inr (jwt_sign (user_id user) ''s3cret'', user),
          sample_store\<lparr>store_users := [sample_rob, sample_eve, user], store_next_id := 7\<rparr>) \<and>
      user_name user = ''bob'' \<and> user_pwHash user = bcrypt_hash ''pw'' 10 ''salt3'') \<and>
   signup sample_cfg \<lparr>su_name = ''bob'', su_email = ''eve@example.org'', su_password = ''pw''\<rparr>
     ''salt3'' (sample_ctx None) = (Inl (PrismaError ''email''), sample_store)"
proof -
  have dup: "\<exists>u \<in> set (store_users (prisma (sample_ctx None))).
      user_name u = su_name \<lparr>su_name = ''eve'', su_email = ''e@example.org'', su_password = ''pw''\<rparr>"
    by (simp add: sample_defs)
  have new: "\<not> (\<exists>u \<in> set (store_users (prisma (sample_ctx None))).
      user_name u = su_name \<lparr>su_name = ''bob'', su_email = ''b@example.org'', su_password = ''pw''\<rparr>) \<and>
    (\<forall>u \<in> set (store_users (prisma (sample_ctx None))).
      user_email u \<noteq> su_email \<lparr>su_name = ''bob'', su_email = ''b@example.org'', su_password = ''pw''\<rparr>)"
    by (simp add: sample_defs)
  have taken: "\<not> (\<exists>u \<in> set (store_users (prisma (sample_ctx None))).
      user_name u = su_name \<lparr>su_name = ''bob'', su_email = ''eve@example.org'', su_password = ''pw''\<rparr>) \<and>
    (\<exists>u \<in> set (store_users (prisma (sample_ctx None))).
      user_email u = su_email \<lparr>su_name = ''bob'', su_email = ''eve@example.org'', su_password = ''pw''\<rparr>)"
    by (simp add: sample_defs)
  have s: "prisma (sample_ctx None) = sample_store" "APP_SECRET sample_cfg = ''s3cret''"
    "store_users sample_store = [sample_rob, sample_eve]" "store_next_id sample_store = 6"
    by (simp_all add: sample_ctx_def sample_store_def sample_cfg_def)
  note t = signup_outcomes [where ctx = "sample_ctx None" and cfg = sample_cfg
      and salt = "''salt3''"]
  from t [THEN conjunct1, THEN mp, OF dup]
       t [THEN conjunct2, THEN conjunct1, THEN mp, OF new]
       t [THEN conjunct2, THEN conjunct2, THEN mp, OF taken]
  show ?thesis by (auto simp: s)
qed

text \<open>
  C6. \<open>login\<close> fails with the error \<open>No such user found\<close> when no stored user has the
  supplied email; it fails with the error \<open>Invalid password\<close> when the store answers a
  user whose stored hash does not match the supplied password; otherwise it returns
  that user together with a token that is signed with \<open>APP_SECRET\<close> and embeds the
  identifier of the user, so that verifying the token under \<open>APP_SECRET\<close> gives the
  identifier back.
\<close>

theorem login_outcomes:
  "((\<forall>u \<in> set (store_users (prisma ctx)). user_email u \<noteq> li_email args) \<longrightarrow>
      login cfg args ctx = Inl (Error ''No such user found'')) \<and>
   (prisma_user_by_email (li_email args) (prisma ctx) = Some user \<and>
    \<not> bcrypt_compare (li_password args) (user_pwHash user) \<longrightarrow>
      login cfg args ctx = Inl (Error ''Invalid password'')) \<and>
   (prisma_user_by_email (li_email args) (prisma ctx) = Some user \<and>
    bcrypt_compare (li_password args) (user_pwHash user) \<longrightarrow>
      login cfg args ctx = Inr (jwt_sign (user_id user) (APP_SECRET cfg), user) \<and>
      jwt_verify (jwt_sign (user_id user) (APP_SECRET cfg)) (APP_SECRET cfg) = Some (user_id user))"
proof (intro conjI impI)
  assume "\<forall>u \<in> set (store_users (prisma ctx)). user_email u \<noteq> li_email args"
  then have "prisma_user_by_email (li_email args) (prisma ctx) = None"
    by (auto simp: prisma_user_by_email_def find_None_iff)
  then show "login cfg args ctx = Inl (Error ''No such user found'')"
    by (simp add: login_def)
qed (simp_all add: login_def jwt_sign_def)

theorem login_outcomes_witness:
  "login sample_cfg \<lparr>li_email = ''nobody@example.org'', li_password = ''x''\<rparr> (sample_ctx None)
     = Inl (Error ''No such user found'') \<and>
   login sample_cfg \<lparr>li_email = ''eve@example.org'', li_password = ''x''\<rparr> (sample_ctx None)
     = Inl (Error ''Invalid password'') \<and>
   login sample_cfg \<lparr>li_email = ''eve@example.org'', li_password = ''letmein''\<rparr> (sample_ctx None)
     = Inr (jwt_sign 2 ''s3cret'', sample_eve)"
proof -
  have none: "\<forall>u \<in> set (store_users (prisma (sample_ctx None))).
      user_email u \<noteq> li_email \<lparr>li_email = ''nobody@example.org'', li_password = ''x''\<rparr>"
    by (simp add: sample_defs)
  have eve: "prisma_user_by_email ''eve@example.org'' (prisma (sample_ctx None)) = Some sample_eve"
    by (simp add: lookup_defs sample_defs)
  have pw: "\<not> bcrypt_compare ''x'' (user_pwHash sample_eve)"
    "bcrypt_compare ''letmein'' (user_pwHash sample_eve)"
    by (simp_all add: sample_defs)
  have s: "user_id sample_eve = 2" "APP_SECRET sample_cfg = ''s3cret''"
    by (simp_all add: sample_defs)
  note t = login_outcomes [where ctx = "sample_ctx None" and cfg = sample_cfg
      and user = sample_eve]
  have "login sample_cfg \<lparr>li_email = ''nobody@example.org'', li_password = ''x''\<rparr> (sample_ctx None)
     = Inl (Error ''No such user found'')"
    using t [THEN conjunct1, THEN mp, OF none] .
  moreover
  have "login sample_cfg \<lparr>li_email = ''eve@example.org'', li_password = ''x''\<rparr> (sample_ctx None)
     = Inl (Error ''Invalid password'')"
    using t [where args = "\<lparr>li_email = ''eve@example.org'', li_password = ''x''\<rparr>"] eve pw
    by simp
  moreover
  have "login sample_cfg \<lparr>li_email = ''eve@example.org'', li_password = ''letmein''\<rparr> (sample_ctx None)
     = Inr (jwt_sign 2 ''s3cret'', sample_eve)"
    using t [where args = "\<lparr>li_email = ''eve@example.org'', li_password = ''letmein''\<rparr>"] eve pw
    by (simp add: s)
  ultimately show ?thesis by simp
qed

section \<open>Posting articles and comments\<close>

text \<open>
  C4. Let the token of the request verify and name a stored user. If the name of that
  user differs from \<open>ADMIN_USER\<close>, \<open>postArticle\<close> and \<open>postComment\<close> fail with the error
  of message \<open>Not authorized\<close> and leave the store as it was. If it is \<open>ADMIN_USER\<close>,
  \<open>postArticle\<close> appends one article with the title, summary and content of the call,
  whose tag list is the supplied list of tags, and \<open>postComment\<close>, on a target article
  that exists, appends one comment with the content of the call, linked to the calling
  user and to the target article.
\<close>

theorem post_mutations_admin_only:
  assumes "getUserId cfg ctx = Inr userId"
    and "prisma_user_by_id userId (prisma ctx) = Some user"
  shows "(user_name user \<noteq> ADMIN_USER cfg \<longrightarrow>
            postArticle cfg args ctx = (Inl (Error ''Not authorized''), prisma ctx) \<and>
            postComment cfg cargs ctx = (Inl (Error ''Not authorized''), prisma ctx)) \<and>
         (user_name user = ADMIN_USER cfg \<longrightarrow>
            (\<exists>a. postArticle cfg args ctx =
                   (Inr a, (prisma ctx)\<lparr>store_articles := store_articles (prisma ctx) @ [a],
                                        store_next_id := Suc (store_next_id (prisma ctx))\<rparr>) \<and>
                 article_title a = pa_title args \<and> article_summary a = pa_summary args \<and>
                 article_content a = pa_content args \<and> article_tags a = pa_tags args)) \<and>
         (user_name user = ADMIN_USER cfg \<and>
          prisma_article (pc_articleId cargs) (prisma ctx) = Some target \<longrightarrow>
            (\<exists>c. postComment cfg cargs ctx =
                   (Inr c, (prisma ctx)\<lparr>store_comments := store_comments (prisma ctx) @ [c],
                                        store_next_id := Suc (store_next_id (prisma ctx))\<rparr>) \<and>
                 comment_content c = pc_content cargs \<and>
                 comment_user c = user_id user \<and> comment_article c = article_id target))"
proof -
  from assms(2) have uid: "user_id user = userId"
    by (auto simp: prisma_user_by_id_def dest: find_key)
  have aid: "article_id target = pc_articleId cargs"
    if "prisma_article (pc_articleId cargs) (prisma ctx) = Some target"
    using that by (auto simp: prisma_article_def dest: find_key)
  show ?thesis
    using assms uid aid
    by (auto simp: postArticle_def postComment_def prisma_createArticle_def
        prisma_createComment_def Let_def)
qed

theorem post_mutations_admin_only_witness:
  "postArticle sample_cfg \<lparr>pa_title = ''T'', pa_summary = ''S'', pa_content = ''C'', pa_tags = [''b'', ''a'', ''b'']\<rparr>
     (sample_ctx (Some (jwt_sign 2 ''s3cret''))) = (Inl (Error ''Not authorized''), sample_store) \<and>
   postComment sample_cfg \<lparr>pc_content = ''hello'', pc_articleId = 3\<rparr>
     (sample_ctx (Some (jwt_sign 2 ''s3cret''))) = (Inl (Error ''Not authorized''), sample_store) \<and>
   (\<exists>a. postArticle sample_cfg \<lparr>pa_title = ''T'', pa_summary = ''S'', pa_content = ''C'', pa_tags = [''b'', ''a'', ''b'']\<rparr>
           (sample_ctx (Some (jwt_sign 1 ''s3cret''))) =
           (Inr a, sample_store\<lparr>store_articles := [sample_published, sample_draft, a],
                                store_next_id := 7\<rparr>) \<and>
         article_tags a = [''b'', ''a'', ''b'']) \<and>
   (\<exists>c. postComment sample_cfg \<lparr>pc_content = ''hello'', pc_articleId = 3\<rparr>
           (sample_ctx (Some (jwt_sign 1 ''s3cret''))) =
           (Inr c, sample_store\<lparr>store_comments := [c], store_next_id := 7\<rparr>) \<and>
         comment_content c = ''hello'' \<and> comment_user c = 1 \<and> comment_article c = 3)"
proof -
  have eve: "getUserId sample_cfg (sample_ctx (Some (jwt_sign 2 ''s3cret''))) = Inr 2"
    "prisma_user_by_id 2 (prisma (sample_ctx (Some (jwt_sign 2 ''s3cret'')))) = Some sample_eve"
    by (simp_all add: getUserId_def jwt_sign_def lookup_defs sample_defs)
  have rob: "getUserId sample_cfg (sample_ctx (Some (jwt_sign 1 ''s3cret''))) = Inr 1"
    "prisma_user_by_id 1 (prisma (sample_ctx (Some (jwt_sign 1 ''s3cret'')))) = Some sample_rob"
    by (simp_all add: getUserId_def jwt_sign_def lookup_defs sample_defs)
  have names: "user_name sample_eve \<noteq> ADMIN_USER sample_cfg"
    "user_name sample_rob = ADMIN_USER sample_cfg"
    by (simp_all add: sample_defs)
  have tgt: "prisma_article (pc_articleId \<lparr>pc_content = ''hello'', pc_articleId = 3\<rparr>)
      (prisma (sample_ctx tok)) = Some sample_published" for tok
    by (simp add: lookup_defs sample_defs)
  have s: "prisma (sample_ctx tok) = sample_store" "user_id sample_rob = 1"
    "article_id sample_published = 3" "store_next_id sample_store = 6"
    "store_articles sample_store = [sample_published, sample_draft]"
    "store_comments sample_store = []" for tok
    by (simp_all add: sample_ctx_def sample_store_def sample_rob_def sample_published_def)
  note te = post_mutations_admin_only [OF eve, where target = sample_published
      and cargs = "\<lparr>pc_content = ''hello'', pc_articleId = 3\<rparr>"
      and args = "\<lparr>pa_title = ''T'', pa_summary = ''S'', pa_content = ''C'',
        pa_tags = [''b'', ''a'', ''b'']\<rparr>"]
  note tr = post_mutations_admin_only [OF rob, where target = sample_published
      and cargs = "\<lparr>pc_content = ''hello'', pc_articleId = 3\<rparr>"
      and args = "\<lparr>pa_title = ''T'', pa_summary = ''S'', pa_content = ''C'',
        pa_tags = [''b'', ''a'', ''b'']\<rparr>"]
  from te [THEN conjunct1, THEN mp, OF names(1)]
       tr [THEN conjunct2, THEN conjunct1, THEN mp, OF names(2)]
       tr [THEN conjunct2, THEN conjunct2, THEN mp, OF conjI [OF names(2) tgt]]
  show ?thesis by (auto simp: s)
qed

text \<open>
  C10. When the token of the request verifies and carries a user identifier that
  matches no stored user, \<open>postArticle\<close> and \<open>postComment\<close> fail and leave the store as
  it was; the failure is the \<open>TypeError\<close> of reading \<open>name\<close> of \<open>null\<close>, not the error of
  message \<open>Not authorized\<close>.
\<close>

theorem post_mutations_unknown_user:
  assumes "getUserId cfg ctx = Inr userId"
    and "prisma_user_by_id userId (prisma ctx) = None"
  shows "postArticle cfg args ctx = (Inl (TypeError ''name''), prisma ctx) \<and>
         postComment cfg cargs ctx = (Inl (TypeError ''name''), prisma ctx) \<and>
         TypeError ''name'' \<noteq> NotAuthorizedError"
  using assms by (simp add: postArticle_def postComment_def)

theorem post_mutations_unknown_user_witness:
  "postArticle sample_cfg \<lparr>pa_title = ''T'', pa_summary = ''S'', pa_content = ''C'', pa_tags = []\<rparr>
     (sample_ctx (Some (jwt_sign 77 ''s3cret''))) = (Inl (TypeError ''name''), sample_store) \<and>
   postComment sample_cfg \<lparr>pc_content = ''hello'', pc_articleId = 3\<rparr>
     (sample_ctx (Some (jwt_sign 77 ''s3cret''))) = (Inl (TypeError ''name''), sample_store)"
proof -
  have g: "getUserId sample_cfg (sample_ctx (Some (jwt_sign 77 ''s3cret''))) = Inr 77"
    by (simp add: getUserId_def jwt_sign_def sample_defs)
  have n: "prisma_user_by_id 77 (prisma (sample_ctx (Some (jwt_sign 77 ''s3cret'')))) = None"
    by (simp add: lookup_defs sample_defs)
  have s: "prisma (sample_ctx tok) = sample_store" for tok
    by (simp add: sample_ctx_def)
  from post_mutations_unknown_user [OF g n] show ?thesis by (simp add: s)
qed

section \<open>Logging in the article service\<close>

text \<open>
  A \<open>tap\<close> whose \<open>next\<close> callback cannot throw passes the stream on unchanged, so
  \<open>updateArticle\<close> emits what it would emit without its logging. In \<open>postArticle\<close> the
  callback throws on every payload object that has no field \<open>data\<close>, and an error of
  the source is logged and passed on.
\<close>

lemma rx_tap_never_throws:
  "fst (rx_tap (\<lambda>v l. Inr (f v l)) g (rx_map project src) l) = rx_map project src"
proof (induction src arbitrary: l)
  case Nil
  then show ?case by simp
next
  case (Cons n src)
  show ?case
  proof (cases n)
    case (Next v)
    then show ?thesis
      using Cons.IH by (cases "project v") (simp_all add: split_beta)
  qed simp_all
qed

lemma updateArticle_logging_transparent:
  "fst (ArticleService_updateArticle art src l) = updateArticle_without_logging src"
  unfolding ArticleService_updateArticle_def updateArticle_without_logging_def
  by (rule rx_tap_never_throws)

lemma postArticle_success_emits_error:
  assumes "data_field ''postArticle'' result = Inr (JObj fs)" and "map_of fs ''data'' = None"
  shows "ArticleService_postArticle art (Next result # ns) l = ([Err (TypeError ''postArticle'')], l)"
proof -
  have "postArticle_tap_next (JObj fs) l = Inl (TypeError ''postArticle'')"
    using assms(2) by (simp add: postArticle_tap_next_def data_field_def)
  with assms(1) show ?thesis
    by (simp add: ArticleService_postArticle_def)
qed

lemma postArticle_failure_logged:
  "ArticleService_postArticle art (Err e # ns) l =
     ([Err e], logger_add ''Failed to create article'' l)"
  by (simp add: ArticleService_postArticle_def)

text \<open>
  C8 asks that the logging leaves the emitted value alone, for \<open>postArticle\<close> in
  particular. In \<open>postArticle\<close> the \<open>next\<close> callback of \<open>tap\<close> runs after \<open>map\<close>, on the
  article payload, and reads \<open>result.data.postArticle\<close> of it: the payload has no
  field \<open>data\<close>, the read throws, and \<open>tap\<close> turns the exception into the error of the
  stream. On a successful answer of the server the operation without logging emits the
  payload and completes, while the service emits a \<open>TypeError\<close> and logs nothing.
\<close>

theorem postArticle_facade_success_emits_error:
  "postArticle_without_logging
     [Next (JObj [(''data'', JObj [(''postArticle'', sample_payload)])]), Complete]
     = [Next sample_payload, Complete] \<and>
   ArticleService_postArticle sample_input
     [Next (JObj [(''data'', JObj [(''postArticle'', sample_payload)])]), Complete] []
     = ([Err (TypeError ''postArticle'')], [])"
  by (simp add: postArticle_without_logging_def ArticleService_postArticle_def
      postArticle_tap_next_def data_field_def sample_payload_def)

end
